theory Spec2Isabelle
  imports Complex_Main "HOL-Library.Log_Nat"
begin

section \<open>The speech depression detection script (app.py)\<close>

text \<open>
  The script is a single top-to-bottom pass that the web framework re-runs on every
  interaction: it loads an uploaded clip, extracts thirteen mean MFCCs, asks a fitted
  classifier for a label and class probabilities, shows a result panel, appends one line
  to the session history, writes a PDF report and lists the history newest first.

  Numbers are read in two ways. In the run of the script below they are exact rationals
  (\<^typ>\<open>rat\<close>): products, differences, means and \<open>round\<close> are the mathematical
  ones. That reading serves the properties that do not depend on how a float rounds. The
  decision itself (lines 136 to 157) is modelled a second time in IEEE 754 binary64
  arithmetic, where the computed numbers are the ones the program prints. A value
  interpolated into an f-string is kept as a number inside the text (\<open>Num\<close>) instead of
  being formatted to digits.
\<close>

subsection \<open>Data\<close>

type_synonym bytes = string

text \<open>A caught or uncaught Python exception, with its message (\<open>str(e)\<close>).\<close>

datatype error = Exception string

fun message :: "error \<Rightarrow> string" where
  "message (Exception m) = m"

text \<open>An f-string: literal text and interpolated numbers, in order.\<close>

datatype piece = Lit string | Num rat

type_synonym fstring = "piece list"

text \<open>
  The collaborators the script calls but does not define: the container decoder behind
  \<open>librosa.load\<close>, \<open>librosa.feature.mfcc\<close> (arguments \<open>y\<close>, \<open>sr\<close>, \<open>n_mfcc\<close>), the
  unpickled classifier's \<open>predict\<close> and \<open>predict_proba\<close> (one output row per input
  row), and the clock read by \<open>datetime.now().strftime\<close>.
\<close>

record pipeline_env =
  decode :: "bytes \<Rightarrow> error + rat list \<times> nat"
  mfcc :: "rat list \<Rightarrow> nat \<Rightarrow> nat \<Rightarrow> error + rat list list"
  predict :: "rat list list \<Rightarrow> int list"
  predict_proba :: "rat list list \<Rightarrow> rat list list"
  now :: string

text \<open>\<open>st.session_state\<close>: the key \<open>history\<close> is absent in a fresh session.\<close>

record session_state =
  history :: "fstring list option"

text \<open>The coloured result block: its heading (without the emoji), its advisory
  paragraph and the number interpolated after \<open>Confidence:\<close>.\<close>

record panel =
  panel_heading :: string
  panel_advice :: string
  panel_confidence :: rat

text \<open>The cells written to the one-page PDF, top to bottom.\<close>

record pdf =
  pdf_title :: string
  pdf_datetime :: string
  pdf_result :: string
  pdf_confidence :: fstring
  pdf_note :: string

text \<open>What one run of the script shows or calls, in program order.\<close>

datatype event =
    StAudio bytes
  | StError string
  | Waveform "rat list"
  | MelSpectrogram "rat list" nat
  | CallPredict "rat list list"
  | CallPredictProba "rat list list"
  | ResultPanel panel
  | DownloadButton string pdf
  | HistoryLine nat fstring

record outcome =
  events :: "event list"
  raised :: "error option"
  session :: session_state

subsection \<open>Python primitives\<close>

text \<open>\<open>xs[0]\<close>: raises IndexError on an empty sequence.\<close>

definition index0 :: "'a list \<Rightarrow> error + 'a" where
  "index0 xs = (case xs of [] \<Rightarrow> Inl (Exception ''IndexError'') | x # _ \<Rightarrow> Inr x)"

text \<open>Rounding to the nearest integer, ties to the even neighbour.\<close>

definition round_half_even :: "rat \<Rightarrow> int" where
  "round_half_even x =
     (let f = \<lfloor>x\<rfloor>; d = x - of_int f
      in if d < 1 / 2 then f
         else if 1 / 2 < d then f + 1
         else if even f then f else f + 1)"

text \<open>
  \<open>round(x, ndigits)\<close> for \<open>ndigits \<ge> 0\<close> on exact numbers: the nearest multiple
  of \<open>10 ^ (- ndigits)\<close>, ties to even. On a Python float this is the decimal rounding
  that \<open>round\<close> applies to the float's exact value before it converts the result back
  to a float (\<open>f64_round\<close> below).
\<close>

definition py_round :: "rat \<Rightarrow> nat \<Rightarrow> rat" where
  "py_round x ndigits = of_int (round_half_even (x * 10 ^ ndigits)) / 10 ^ ndigits"

subsection \<open>The decision (lines 136 to 157)\<close>

text \<open>
  \<^verbatim>\<open>confidence_score = round(proba[1] * 100, 2) if len(proba) > 1 else round(proba[0] * 100, 2)\<close>
\<close>

definition confidence_score :: "rat list \<Rightarrow> error + rat" where
  "confidence_score proba =
     (if length proba > 1 then Inr (py_round (proba ! 1 * 100) 2)
      else case index0 proba of
             Inl e \<Rightarrow> Inl e
           | Inr p \<Rightarrow> Inr (py_round (p * 100) 2))"

text \<open>
  \<^verbatim>\<open>result_label = "Depressed" if prediction[0] == 1 else "Not Depressed"\<close>
\<close>

definition result_label :: "int \<Rightarrow> string" where
  "result_label r = (if r = 1 then ''Depressed'' else ''Not Depressed'')"

text \<open>\<open>st.session_state.history.append(entry)\<close>.\<close>

definition append_history :: "fstring \<Rightarrow> session_state \<Rightarrow> session_state" where
  "append_history entry s = s\<lparr>history := map_option (\<lambda>h. h @ [entry]) (history s)\<rparr>"

text \<open>
  The result display: the branch on \<open>prediction[0] == 1\<close> that shows the panel and
  appends the history line.
\<close>

definition result_display :: "int \<Rightarrow> rat \<Rightarrow> session_state \<Rightarrow> panel \<times> session_state" where
  "result_display r score s =
     (if r = 1 then
        (\<lparr>panel_heading = ''Depression Detected'',
          panel_advice = ''Please consult a professional if this is a real concern.'',
          panel_confidence = score\<rparr>,
         append_history [Lit ''Depressed ('', Num score, Lit ''%)''] s)
      else
        (\<lparr>panel_heading = ''No Depression Detected'',
          panel_advice = ''The voice sounds healthy and normal.'',
          panel_confidence = 100 - score\<rparr>,
         append_history [Lit ''Not Depressed ('', Num (100 - score), Lit ''%)''] s))"

subsection \<open>The PDF report (lines 88 to 106)\<close>

definition generate_pdf_report :: "string \<Rightarrow> string \<Rightarrow> rat \<Rightarrow> string \<times> pdf" where
  "generate_pdf_report now_text prediction_label confidence =
     (let advice = (if prediction_label = ''Depressed''
                    then ''Please consult a professional if this is a real concern.''
                    else ''Voice sounds healthy. Keep monitoring regularly.'')
      in (''depression_report.pdf'',
          \<lparr>pdf_title = ''Child Speech Depression Detection Report'',
           pdf_datetime = ''Date & Time: '' @ now_text,
           pdf_result = ''Prediction Result: '' @ prediction_label,
           pdf_confidence = [Lit ''Confidence Score: '', Num confidence, Lit ''%''],
           pdf_note = ''Note:'' @ [CHR 0x0A] @ advice\<rparr>))"

subsection \<open>The decision in float64 arithmetic\<close>

text \<open>
  The numbers of lines 136 to 157 are IEEE 754 binary64 values. A binary64 value is a
  rational, and an operation on such values returns the exact result rounded to the
  nearest binary64 value, ties to the even significand. Overflow to infinity and NaN are
  not represented; the values here are percentages.

  \<open>expo a\<close> is the binary exponent of a positive rational: the integer \<open>e\<close> with
  \<open>2 ^ e \<le> a < 2 ^ (e + 1)\<close>.
\<close>

definition expo :: "rat \<Rightarrow> int" where
  "expo a =
     (if 1 \<le> a then int (floorlog 2 (nat \<lfloor>a\<rfloor>)) - 1
      else let j = int (floorlog 2 (nat \<lfloor>1 / a\<rfloor>)) - 1
           in if a = 2 powi (- j) then - j else - j - 1)"

text \<open>
  Rounding to binary64: 53 significant bits, the exponent not below that of the
  subnormal range.
\<close>

definition f64 :: "rat \<Rightarrow> rat" where
  "f64 x =
     (if x = 0 then 0
      else let e = max (expo \<bar>x\<bar>) (- 1022); u = 2 powi (e - 52)
           in of_int (round_half_even (x / u)) * u)"

text \<open>
  \<open>round(x, ndigits)\<close> on a float. Which code runs depends on the type of the
  classifier's probabilities: a Python \<open>float\<close> is rounded correctly, that is to the
  binary64 value nearest to the decimal rounding of its exact value; a numpy
  \<open>float64\<close> is multiplied by the power of ten, rounded to an integer and divided
  again, each step in binary64.
\<close>

datatype round_impl = Builtin_float | Numpy_float64

fun f64_round :: "round_impl \<Rightarrow> rat \<Rightarrow> nat \<Rightarrow> rat" where
  "f64_round Builtin_float x ndigits = f64 (py_round x ndigits)"
| "f64_round Numpy_float64 x ndigits =
     f64 (of_int (round_half_even (f64 (x * 10 ^ ndigits))) / 10 ^ ndigits)"

text \<open>
  Line 136 with the product and the rounding in binary64.
\<close>

definition confidence_score_f64 :: "round_impl \<Rightarrow> rat list \<Rightarrow> error + rat" where
  "confidence_score_f64 impl proba =
     (if length proba > 1 then Inr (f64_round impl (f64 (proba ! 1 * 100)) 2)
      else case index0 proba of
             Inl e \<Rightarrow> Inl e
           | Inr p \<Rightarrow> Inr (f64_round impl (f64 (p * 100)) 2))"


subsection \<open>Feature extraction (lines 78 to 85)\<close>

text \<open>
  Modelled from the spec: \<open>librosa.load\<close> is a library function, its code is not part
  of the repository; only the call \<open>librosa.load(file, sr=None, duration=3, offset=0.5)\<close>
  is. Following section 4.1 of the spec, the clip is decoded at its own sample rate
  (\<open>sr=None\<close>: no resampling) and the result is the window of \<open>duration\<close> seconds that
  starts \<open>offset\<close> seconds into the clip, in whole samples; where the clip ends early the
  window holds the samples that are there. A decoding failure is the only error.
\<close>

definition librosa_load ::
  "(bytes \<Rightarrow> error + rat list \<times> nat) \<Rightarrow> bytes \<Rightarrow> rat \<Rightarrow> rat \<Rightarrow> error + rat list \<times> nat" where
  "librosa_load decoder file duration offset =
     (case decoder file of
        Inl e \<Rightarrow> Inl e
      | Inr (ys, sr) \<Rightarrow>
          Inr (take (nat \<lfloor>duration * of_nat sr\<rfloor>) (drop (nat \<lfloor>offset * of_nat sr\<rfloor>) ys), sr))"

text \<open>\<open>m.mean(axis=1)\<close> of a matrix given as its list of rows.\<close>

definition mean_axis1 :: "rat list list \<Rightarrow> rat list" where
  "mean_axis1 m = map (\<lambda>row. sum_list row / of_nat (length row)) m"

text \<open>
  \<open>extract_features\<close>: any exception of the two library calls is caught, reported with
  \<open>st.error\<close>, and the triple of \<open>None\<close> is returned (here \<open>None\<close>). On success the
  features are the one-row matrix \<open>mfcc.mean(axis=1).reshape(1, -1)\<close>.
\<close>

definition extract_features ::
  "pipeline_env \<Rightarrow> bytes \<Rightarrow> event list \<times> (rat list list \<times> rat list \<times> nat) option" where
  "extract_features env file =
     (case librosa_load (decode env) file 3 (1 / 2) of
        Inl e \<Rightarrow> ([StError (''Audio Error: '' @ message e)], None)
      | Inr (y, sr) \<Rightarrow>
          (case mfcc env y sr 13 of
             Inl e \<Rightarrow> ([StError (''Audio Error: '' @ message e)], None)
           | Inr m \<Rightarrow> ([], Some ([mean_axis1 m], y, sr))))"

subsection \<open>One run of the script (lines 70 to 167)\<close>

text \<open>
  \<^verbatim>\<open>for i, entry in enumerate(st.session_state.history[::-1]): st.write(f"{i+1}. {entry}")\<close>
\<close>

definition history_lines :: "fstring list \<Rightarrow> event list" where
  "history_lines h = map (\<lambda>(i, entry). HistoryLine (i + 1) entry) (enumerate 0 (rev h))"

text \<open>An exception nobody catches ends the run; the session keeps what it had.\<close>

definition crash :: "event list \<Rightarrow> error \<Rightarrow> session_state \<Rightarrow> outcome" where
  "crash shown e s = \<lparr>events = shown, raised = Some e, session = s\<rparr>"

text \<open>
  The block under \<open>if features is not None\<close>: plots, the two classifier calls, the
  decision, the report and the history listing. The plots and the PDF writer are
  recorded as events and taken not to raise; indexing an empty classifier answer raises
  IndexError. The key \<open>history\<close> is always present here, since the run creates it
  first; its absence would be an AttributeError.
\<close>

definition prediction_block ::
  "pipeline_env \<Rightarrow> rat list list \<Rightarrow> rat list \<Rightarrow> nat \<Rightarrow> session_state \<Rightarrow> outcome" where
  "prediction_block env features y sr s =
     (let shown = [Waveform y, MelSpectrogram y sr, CallPredict features, CallPredictProba features];
          prediction = predict env features
      in case index0 (predict_proba env features) of
           Inl e \<Rightarrow> crash shown e s
         | Inr proba \<Rightarrow>
             (case confidence_score proba of
                Inl e \<Rightarrow> crash shown e s
              | Inr score \<Rightarrow>
                  (case index0 prediction of
                     Inl e \<Rightarrow> crash shown e s
                   | Inr r \<Rightarrow>
                       (let (block, s') = result_display r score s;
                            (report_path, report) =
                               generate_pdf_report (now env) (result_label r) score;
                            shown' = shown @ [ResultPanel block, DownloadButton report_path report]
                        in case history s' of
                             None \<Rightarrow> crash shown' (Exception ''AttributeError'') s'
                           | Some h \<Rightarrow>
                               \<lparr>events = shown' @ history_lines h, raised = None, session = s'\<rparr>))))"

text \<open>
  The whole run: create the history on first use, then, when a file is uploaded, play
  it, extract features and, if that gave features, run the prediction block.
\<close>

definition run_script :: "pipeline_env \<Rightarrow> bytes option \<Rightarrow> session_state \<Rightarrow> outcome" where
  "run_script env uploaded_file s0 =
     (let s = (if history s0 = None then s0\<lparr>history := Some []\<rparr> else s0)
      in case uploaded_file of
           None \<Rightarrow> \<lparr>events = [], raised = None, session = s\<rparr>
         | Some file \<Rightarrow>
             (case extract_features env file of
                (errs, None) \<Rightarrow> \<lparr>events = StAudio file # errs, raised = None, session = s\<rparr>
              | (errs, Some (features, y, sr)) \<Rightarrow>
                  (let out = prediction_block env features y sr s
                   in out\<lparr>events := StAudio file # errs @ events out\<rparr>)))"

text \<open>A session: the script re-run once per interaction, on the same session state.\<close>

fun run_session :: "pipeline_env \<Rightarrow> bytes option list \<Rightarrow> session_state \<Rightarrow> session_state" where
  "run_session env [] s = s"
| "run_session env (u # us) s = run_session env us (session (run_script env u s))"

subsection \<open>Observers used to state the properties\<close>

fun is_panel :: "event \<Rightarrow> bool" where
  "is_panel (ResultPanel _) = True"
| "is_panel _ = False"

fun is_classifier_call :: "event \<Rightarrow> bool" where
  "is_classifier_call (CallPredict _) = True"
| "is_classifier_call (CallPredictProba _) = True"
| "is_classifier_call _ = False"

fun is_error_message :: "event \<Rightarrow> bool" where
  "is_error_message (StError _) = True"
| "is_error_message _ = False"

fun is_history_line :: "event \<Rightarrow> bool" where
  "is_history_line (HistoryLine _ _) = True"
| "is_history_line _ = False"

text \<open>A run made a decision when it got as far as showing the result panel.\<close>

definition decided :: "outcome \<Rightarrow> bool" where
  "decided out = list_ex is_panel (events out)"

text \<open>The stored history as a list (empty while the key is absent).\<close>

definition stored :: "session_state \<Rightarrow> fstring list" where
  "stored s = (case history s of None \<Rightarrow> [] | Some h \<Rightarrow> h)"

text \<open>The result panels, the reports offered for download and the history lines that
  a run showed, in order.\<close>

fun panels :: "event list \<Rightarrow> panel list" where
  "panels [] = []"
| "panels (ResultPanel p # es) = p # panels es"
| "panels (_ # es) = panels es"

fun reports :: "event list \<Rightarrow> pdf list" where
  "reports [] = []"
| "reports (DownloadButton _ d # es) = d # reports es"
| "reports (_ # es) = reports es"

fun listing :: "event list \<Rightarrow> (nat \<times> fstring) list" where
  "listing [] = []"
| "listing (HistoryLine i entry # es) = (i, entry) # listing es"
| "listing (_ # es) = listing es"

text \<open>
  Whether a run on this upload makes a decision, and the history lines it appends,
  both read off a run that starts with an empty history.
\<close>

definition decides :: "pipeline_env \<Rightarrow> bytes option \<Rightarrow> bool" where
  "decides env u = decided (run_script env u \<lparr>history = Some []\<rparr>)"

definition appended :: "pipeline_env \<Rightarrow> bytes option \<Rightarrow> fstring list" where
  "appended env u = stored (session (run_script env u \<lparr>history = Some []\<rparr>))"

text \<open>
  Collaborators for concrete runs: a decoder that yields the given clip, an MFCC
  routine that yields the given matrix, and a classifier that answers every feature
  matrix with one raw label and one probability row.
\<close>

definition fixed_env ::
  "rat list \<times> nat \<Rightarrow> rat list list \<Rightarrow> int \<Rightarrow> rat list \<Rightarrow> pipeline_env" where
  "fixed_env clip coeffs r proba =
     \<lparr>decode = (\<lambda>_. Inr clip),
      mfcc = (\<lambda>_ _ _. Inr coeffs),
      predict = (\<lambda>_. [r]),
      predict_proba = (\<lambda>_. [proba]),
      now = ''2024-01-01 12:00:00''\<rparr>"

section \<open>Auxiliary lemmas\<close>

subsection \<open>Rounding\<close>


lemma round_half_even_lower:
  assumes "of_int n \<le> x"
  shows "n \<le> round_half_even x"
proof -
  have "n \<le> \<lfloor>x\<rfloor>" using assms by (simp add: le_floor_iff)
  then show ?thesis by (simp add: round_half_even_def Let_def)
qed

lemma round_half_even_upper:
  assumes "x \<le> of_int n"
  shows "round_half_even x \<le> n"
proof (cases "x = of_int n")
  case True
  then show ?thesis by (simp add: round_half_even_def)
next
  case False
  with assms have "x < of_int n" by simp
  then have "\<lfloor>x\<rfloor> < n" by (simp add: floor_less_iff)
  then show ?thesis by (simp add: round_half_even_def Let_def)
qed


lemma py_round_grid: "\<exists>k::int. py_round x 2 = of_int k / 100"
  by (auto simp: py_round_def)

lemma py_round_range:
  assumes "0 \<le> x" "x \<le> 100"
  shows "0 \<le> py_round x 2 \<and> py_round x 2 \<le> 100"
proof -
  have "0 \<le> round_half_even (x * 100)"
    using assms by (intro round_half_even_lower) simp
  moreover have "round_half_even (x * 100) \<le> 10000"
    using assms by (intro round_half_even_upper) simp
  ultimately show ?thesis by (simp add: py_round_def field_simps)
qed

subsection \<open>The prediction block on a well-formed classifier answer\<close>

lemma listing_map_lines:
  "listing (map (\<lambda>(i, entry). HistoryLine (g i) entry) xs) = map (\<lambda>(i, entry). (g i, entry)) xs"
  by (induction xs) auto

lemma listing_history_lines:
  "listing (history_lines h) = map (\<lambda>(i, entry). (i + 1, entry)) (enumerate 0 (rev h))"
  unfolding history_lines_def by (rule listing_map_lines)

lemma panels_history_lines: "panels (history_lines h) = []"
proof -
  have "panels (map (\<lambda>(i, entry). HistoryLine (g i) entry) xs) = []" for g xs
    by (induction xs) auto
  then show ?thesis unfolding history_lines_def .
qed


lemma prediction_block_decides:
  assumes "predict env f = r # rs" and "predict_proba env f = proba # ps"
    and "confidence_score proba = Inr c" and "history s = Some h"
  shows "prediction_block env f y sr s =
     \<lparr>events = [Waveform y, MelSpectrogram y sr, CallPredict f, CallPredictProba f,
                ResultPanel (fst (result_display r c s)),
                DownloadButton ''depression_report.pdf''
                  (snd (generate_pdf_report (now env) (result_label r) c))]
               @ history_lines (h @ [if r = 1 then [Lit ''Depressed ('', Num c, Lit ''%)'']
                                     else [Lit ''Not Depressed ('', Num (100 - c), Lit ''%)'']]),
      raised = None,
      session = s\<lparr>history := Some (h @ [if r = 1 then [Lit ''Depressed ('', Num c, Lit ''%)'']
                                     else [Lit ''Not Depressed ('', Num (100 - c), Lit ''%)'']])\<rparr>\<rparr>"
  using assms
  by (simp add: prediction_block_def index0_def result_display_def append_history_def
      generate_pdf_report_def Let_def)

lemma prediction_block_panels:
  assumes "predict env f = r # rs" and "predict_proba env f = proba # ps"
    and "confidence_score proba = Inr c" and "history s = Some h"
  shows "panels (events (prediction_block env f y sr s)) = [fst (result_display r c s)]"
  by (simp add: prediction_block_decides [OF assms] panels_history_lines)



lemma confidence_score_binary:
  "2 \<le> length proba \<Longrightarrow> confidence_score proba = Inr (py_round (proba ! 1 * 100) 2)"
  by (simp add: confidence_score_def)

lemma confidence_score_single:
  "confidence_score [p] = Inr (py_round (p * 100) 2)"
  by (simp add: confidence_score_def index0_def)

subsection \<open>Float64 rounding\<close>

lemma floorlog_2_one: "floorlog 2 (Suc 0) = Suc 0"
  by (simp add: floorlog_def)

lemma floorlog_2_Bit0: "floorlog 2 (numeral (Num.Bit0 n)) = floorlog 2 (numeral n) + 1"
  by (subst compute_floorlog) simp

lemma floorlog_2_Bit1: "floorlog 2 (numeral (Num.Bit1 n)) = floorlog 2 (numeral n) + 1"
  by (subst compute_floorlog) simp

lemma floor_numeral_div_rat: "\<lfloor>numeral a / numeral b :: rat\<rfloor> = numeral a div numeral b"
  by (metis floor_divide_of_int_eq of_int_numeral)

lemma floor_minus_numeral_div_rat:
  "\<lfloor>- (numeral a / numeral b) :: rat\<rfloor> = - numeral a div numeral b"
  by (metis divide_minus_left floor_divide_of_int_eq of_int_neg_numeral of_int_numeral)

lemma floor_one_div_rat: "\<lfloor>1 / numeral b :: rat\<rfloor> = 1 div numeral b"
  by (metis floor_divide_of_int_eq of_int_1 of_int_numeral)

lemmas f64_eval = f64_def expo_def round_half_even_def py_round_def Let_def
  floorlog_2_one floorlog_2_Bit0 floorlog_2_Bit1
  floor_numeral_div_rat floor_minus_numeral_div_rat floor_one_div_rat











section \<open>Properties\<close>

text \<open>
  C5. The label mapping is total and binary: the label is \<open>Depressed\<close> exactly when
  the raw label is 1 and \<open>Not Depressed\<close> for every other raw label; no third label is
  produced.
\<close>

theorem result_label_binary:
  "(result_label r = ''Depressed'') = (r = 1)
   \<and> (result_label r = ''Not Depressed'') = (r \<noteq> 1)
   \<and> result_label r \<in> {''Depressed'', ''Not Depressed''}"
  by (simp add: result_label_def)

theorem result_label_binary_witness:
  "result_label 1 = ''Depressed'' \<and> result_label 0 = ''Not Depressed''
   \<and> result_label 2 = ''Not Depressed'' \<and> result_label (- 1) = ''Not Depressed''"
  using result_label_binary [of 1] result_label_binary [of 0]
    result_label_binary [of 2] result_label_binary [of "- 1"]
  by simp

lemma f64_reference_points:
  "f64 (77525 / 100000) = 3491415611118977 / 4503599627370496
   \<and> f64_round impl (f64 (f64 (77525 / 100000) * 100)) 2 = f64 (7753 / 100)
   \<and> py_round (77525 / 100000 * 100) 2 = 7752 / 100
   \<and> f64 (100 - f64 (8123 / 100)) = 1320821328214753 / 70368744177664
   \<and> confidence_score_f64 impl [f64 (95 / 100)] = Inr 95
   \<and> f64 (100 - 95) = 5"
  by (cases impl) (simp_all add: f64_eval confidence_score_f64_def index0_def)



text \<open>
  C2. A single probability is meant to be reported as it is under whichever label was
  predicted: 0.95 with raw label 0 should read \<open>Not Depressed\<close>, 95. On that input
  the script computes the score 95 and prints it in the report, but the panel and the
  history line carry 100 - 95 = 5.
\<close>

theorem single_probability_not_depressed_shows_complement:
  "confidence_score [95 / 100] = Inr 95
   \<and> panels (events (run_script (fixed_env ([0, 0, 0, 0], 1) [[1]] 0 [95 / 100])
        (Some ''wav'') \<lparr>history = None\<rparr>))
     = [\<lparr>panel_heading = ''No Depression Detected'',
         panel_advice = ''The voice sounds healthy and normal.'',
         panel_confidence = 5\<rparr>]
   \<and> stored (session (run_script (fixed_env ([0, 0, 0, 0], 1) [[1]] 0 [95 / 100])
        (Some ''wav'') \<lparr>history = None\<rparr>))
     = [[Lit ''Not Depressed ('', Num 5, Lit ''%)'']]
   \<and> map pdf_confidence (reports (events (run_script (fixed_env ([0, 0, 0, 0], 1) [[1]] 0 [95 / 100])
        (Some ''wav'') \<lparr>history = None\<rparr>)))
     = [[Lit ''Confidence Score: '', Num 95, Lit ''%'']]"
  by (simp add: run_script_def extract_features_def librosa_load_def fixed_env_def
      prediction_block_def confidence_score_def index0_def py_round_def round_half_even_def
      result_display_def append_history_def generate_pdf_report_def result_label_def
      history_lines_def stored_def mean_axis1_def Let_def)

text \<open>
  C3. Each site's advisory text depends on the label alone and has two
  variants. For the label \<open>Depressed\<close> the panel and the report carry the same
  sentence; for \<open>Not Depressed\<close> the panel says the voice sounds healthy and normal,
  the report says to keep monitoring regularly.
\<close>

theorem advisory_text_by_label:
  "panel_advice (fst (result_display r c s))
     = (if r = 1 then ''Please consult a professional if this is a real concern.''
        else ''The voice sounds healthy and normal.'')
   \<and> pdf_note (snd (generate_pdf_report t (result_label r) c))
     = ''Note:'' @ [CHR 0x0A] @
       (if r = 1 then ''Please consult a professional if this is a real concern.''
        else ''Voice sounds healthy. Keep monitoring regularly.'')
   \<and> (r = 1 \<longrightarrow> pdf_note (snd (generate_pdf_report t (result_label r) c))
         = ''Note:'' @ [CHR 0x0A] @ panel_advice (fst (result_display r c s)))"
  by (simp add: result_display_def generate_pdf_report_def result_label_def)

theorem advisory_text_by_label_witness:
  "pdf_note (snd (generate_pdf_report ''2024-01-01 12:00:00'' (result_label 1) 80))
     = ''Note:'' @ [CHR 0x0A] @ panel_advice (fst (result_display 1 80 \<lparr>history = Some []\<rparr>))
   \<and> panel_advice (fst (result_display 1 80 \<lparr>history = Some []\<rparr>))
     = ''Please consult a professional if this is a real concern.''"
  using advisory_text_by_label [of 1 80 "\<lparr>history = Some []\<rparr>" "''2024-01-01 12:00:00''"]
  by simp

theorem advisory_text_differs_when_not_depressed:
  "pdf_note (snd (generate_pdf_report ''2024-01-01 12:00:00'' (result_label 0) 30))
     \<noteq> ''Note:'' @ [CHR 0x0A] @ panel_advice (fst (result_display 0 30 \<lparr>history = Some []\<rparr>))"
  by (simp add: result_display_def generate_pdf_report_def result_label_def)



lemma confidence_score_in_range:
  assumes "proba \<noteq> []" and "\<forall>p\<in>set proba. 0 \<le> p \<and> p \<le> 1"
  shows "\<exists>c. confidence_score proba = Inr c \<and> 0 \<le> c \<and> c \<le> 100"
proof (cases "2 \<le> length proba")
  case True
  then have "proba ! 1 \<in> set proba" by simp
  with assms(2) have "0 \<le> proba ! 1 * 100" "proba ! 1 * 100 \<le> 100" by auto
  then have "0 \<le> py_round (proba ! 1 * 100) 2 \<and> py_round (proba ! 1 * 100) 2 \<le> 100"
    by (rule py_round_range)
  with True show ?thesis by (simp add: confidence_score_binary)
next
  case False
  with assms(1) obtain p where p: "proba = [p]"
    by (cases proba) (auto simp: Suc_le_eq)
  with assms(2) have "0 \<le> p * 100" "p * 100 \<le> 100" by auto
  then have "0 \<le> py_round (p * 100) 2 \<and> py_round (p * 100) 2 \<le> 100"
    by (rule py_round_range)
  with p show ?thesis by (simp add: confidence_score_single)
qed

text \<open>
  C10. For a probability row of length at least 1 with entries in [0, 1], the score and
  the number the panel shows (the score, or 100 minus it when the raw label is not 1) lie
  between 0 and 100.
\<close>

theorem confidence_percent_in_range:
  assumes "proba \<noteq> []" and "\<forall>p\<in>set proba. 0 \<le> p \<and> p \<le> 1"
    and "predict env f = r # rs" and "predict_proba env f = proba # ps"
    and "history s = Some h"
  shows "\<exists>c v. confidence_score proba = Inr c \<and> 0 \<le> c \<and> c \<le> 100
           \<and> map panel_confidence (panels (events (prediction_block env f y sr s))) = [v]
           \<and> v = (if r = 1 then c else 100 - c) \<and> 0 \<le> v \<and> v \<le> 100"
proof -
  from confidence_score_in_range [OF assms(1,2)]
  obtain c where c: "confidence_score proba = Inr c" and range: "0 \<le> c" "c \<le> 100"
    by blast
  have "map panel_confidence (panels (events (prediction_block env f y sr s)))
        = [if r = 1 then c else 100 - c]"
    by (simp add: prediction_block_panels [OF assms(3,4) c assms(5)] result_display_def)
  with c range show ?thesis by auto
qed

theorem confidence_percent_in_range_witness:
  "map panel_confidence (panels (events (prediction_block (fixed_env ([], 1) [] 1 [2 / 10, 8 / 10])
      [[0]] [] 1 \<lparr>history = Some []\<rparr>))) = [80]
   \<and> confidence_score [2 / 10, 8 / 10] = Inr 80"
  using confidence_percent_in_range [of "[2 / 10, 8 / 10]" "fixed_env ([], 1) [] 1 [2 / 10, 8 / 10]"
      "[[0]]" 1 "[]" "[]" "\<lparr>history = Some []\<rparr>" "[]" "[]" 1]
  by (auto simp add: fixed_env_def confidence_score_def py_round_def round_half_even_def Let_def)

subsection \<open>The loaded window\<close>

lemma half_second_samples: "nat \<lfloor>(of_nat sr :: rat) / 2\<rfloor> = sr div 2"
proof -
  have "\<lfloor>(of_nat sr :: rat) / of_nat 2\<rfloor> = int (sr div 2)"
    by (simp only: floor_divide_of_nat_eq)
  then show ?thesis by simp
qed

lemma three_second_samples: "nat \<lfloor>(3 :: rat) * of_nat sr\<rfloor> = 3 * sr"
proof -
  have "(3 :: rat) * of_nat sr = of_int (int (3 * sr))" by simp
  then have "\<lfloor>(3 :: rat) * of_nat sr\<rfloor> = int (3 * sr)" by (simp only: floor_of_int)
  then show ?thesis by simp
qed

lemma librosa_load_window:
  "decoder file = Inr (ys, sr) \<Longrightarrow>
   librosa_load decoder file 3 (1 / 2) = Inr (take (3 * sr) (drop (sr div 2) ys), sr)"
  by (simp add: librosa_load_def half_second_samples three_second_samples)

lemma librosa_load_error:
  "decoder file = Inl e \<Longrightarrow> librosa_load decoder file d off = Inl e"
  by (simp add: librosa_load_def)

text \<open>
  C6. The loader keeps the clip's own sample rate and returns the 3-second window that
  starts 0.5 s into the clip: \<open>3 * sr\<close> samples from sample \<open>sr div 2\<close> on, or the
  samples that are left when the clip ends earlier. A 5-second clip at 22050 Hz gives
  66150 samples. Feature extraction works on exactly that window.
\<close>

theorem load_three_second_window:
  assumes "decode env file = Inr (ys, sr)"
  shows "librosa_load (decode env) file 3 (1 / 2) = Inr (take (3 * sr) (drop (sr div 2) ys), sr)
       \<and> length (take (3 * sr) (drop (sr div 2) ys)) = min (3 * sr) (length ys - sr div 2)
       \<and> (sr = 22050 \<and> length ys = 5 * sr \<longrightarrow> length (take (3 * sr) (drop (sr div 2) ys)) = 66150)
       \<and> (\<forall>m. mfcc env (take (3 * sr) (drop (sr div 2) ys)) sr 13 = Inr m \<longrightarrow>
             extract_features env file
               = ([], Some ([mean_axis1 m], take (3 * sr) (drop (sr div 2) ys), sr)))"
proof -
  have w: "librosa_load (decode env) file 3 (1 / 2) = Inr (take (3 * sr) (drop (sr div 2) ys), sr)"
    using assms by (rule librosa_load_window)
  have len: "length (take (3 * sr) (drop (sr div 2) ys)) = min (3 * sr) (length ys - sr div 2)"
    by (simp add: min.commute)
  have scen: "sr = 22050 \<and> length ys = 5 * sr \<longrightarrow> length (take (3 * sr) (drop (sr div 2) ys)) = 66150"
    by simp
  have feat: "\<forall>m. mfcc env (take (3 * sr) (drop (sr div 2) ys)) sr 13 = Inr m \<longrightarrow>
             extract_features env file
               = ([], Some ([mean_axis1 m], take (3 * sr) (drop (sr div 2) ys), sr))"
    by (simp add: extract_features_def w)
  from w len scen feat show ?thesis by blast
qed

theorem load_three_second_window_witness:
  "librosa_load (decode (fixed_env (replicate 110250 0, 22050) [[1]] 0 [1])) ''wav'' 3 (1 / 2)
     = Inr (replicate 66150 0, 22050)
   \<and> librosa_load (decode (fixed_env ([1, 2, 3, 4, 5, 6], 4) [[1]] 0 [1])) ''wav'' 3 (1 / 2)
     = Inr ([3, 4, 5, 6], 4)"
  using load_three_second_window [of "fixed_env (replicate 110250 0, 22050) [[1]] 0 [1]" "''wav''"
      "replicate 110250 0" 22050]
    load_three_second_window [of "fixed_env ([1, 2, 3, 4, 5, 6], 4) [[1]] 0 [1]" "''wav''"
      "[1, 2, 3, 4, 5, 6]" 4]
  by (simp add: fixed_env_def)

text \<open>
  C7. When extraction succeeds, the features are one row of 13 numbers, entry \<open>i\<close>
  being the arithmetic mean over the frames of the \<open>i\<close>-th coefficient row that the
  MFCC routine returned. That the routine, asked for 13 coefficients, returns 13 rows
  with at least one frame each is its contract and a hypothesis here.
\<close>

theorem feature_vector_thirteen_means:
  assumes "extract_features env file = (errs, Some (features, y, sr))"
    and "\<forall>m. mfcc env y sr 13 = Inr m \<longrightarrow> length m = 13 \<and> (\<forall>row\<in>set m. row \<noteq> [])"
  shows "\<exists>m v. mfcc env y sr 13 = Inr m \<and> features = [v] \<and> length v = 13
           \<and> (\<forall>i<13. length (m ! i) \<noteq> 0 \<and> v ! i = sum_list (m ! i) / of_nat (length (m ! i)))"
proof -
  from assms(1) obtain m where m: "mfcc env y sr 13 = Inr m" and f: "features = [mean_axis1 m]"
    by (auto simp: extract_features_def split: sum.splits prod.splits)
  with assms(2) have len: "length m = 13" and rows: "\<forall>row\<in>set m. row \<noteq> []" by auto
  have "\<forall>i<13. length (m ! i) \<noteq> 0 \<and> mean_axis1 m ! i = sum_list (m ! i) / of_nat (length (m ! i))"
    using len rows by (simp add: mean_axis1_def)
  moreover have "length (mean_axis1 m) = 13" using len by (simp add: mean_axis1_def)
  ultimately show ?thesis using m f by blast
qed

theorem feature_vector_thirteen_means_witness:
  "extract_features (fixed_env ([1, 2, 3, 4, 5, 6], 4) (replicate 13 [1, 3]) 0 [1]) ''wav''
     = ([], Some ([replicate 13 2], [3, 4, 5, 6], 4))
   \<and> length (replicate 13 (2 :: rat)) = 13"
  using feature_vector_thirteen_means [of "fixed_env ([1, 2, 3, 4, 5, 6], 4) (replicate 13 [1, 3]) 0 [1]"
      "''wav''" "[]" "[replicate 13 2]" "[3, 4, 5, 6]" 4]
  by (simp add: fixed_env_def extract_features_def librosa_load_def mean_axis1_def)

subsection \<open>Runs of the whole script\<close>

lemma extract_features_fails:
  assumes "decode env file = Inl e
           \<or> (\<exists>ys sr. decode env file = Inr (ys, sr)
                 \<and> mfcc env (take (3 * sr) (drop (sr div 2) ys)) sr 13 = Inl e)"
  shows "extract_features env file = ([StError (''Audio Error: '' @ message e)], None)"
  using assms
proof
  assume "decode env file = Inl e"
  then have "librosa_load (decode env) file 3 (1 / 2) = Inl e" by (rule librosa_load_error)
  then show ?thesis by (simp add: extract_features_def)
next
  assume "\<exists>ys sr. decode env file = Inr (ys, sr)
                 \<and> mfcc env (take (3 * sr) (drop (sr div 2) ys)) sr 13 = Inl e"
  then obtain ys sr where d: "decode env file = Inr (ys, sr)"
    and m: "mfcc env (take (3 * sr) (drop (sr div 2) ys)) sr 13 = Inl e" by blast
  from d have "librosa_load (decode env) file 3 (1 / 2) = Inr (take (3 * sr) (drop (sr div 2) ys), sr)"
    by (rule librosa_load_window)
  with m show ?thesis by (simp add: extract_features_def)
qed

text \<open>
  C9. When decoding or feature extraction fails, the run shows the audio player and one
  error message and stops there: no classifier call, no decision, no exception, and the
  stored history is what it was.
\<close>

theorem failed_extraction_skips_classifier:
  assumes "decode env file = Inl e
           \<or> (\<exists>ys sr. decode env file = Inr (ys, sr)
                 \<and> mfcc env (take (3 * sr) (drop (sr div 2) ys)) sr 13 = Inl e)"
  shows "events (run_script env (Some file) s) = [StAudio file, StError (''Audio Error: '' @ message e)]
       \<and> \<not> list_ex is_classifier_call (events (run_script env (Some file) s))
       \<and> list_ex is_error_message (events (run_script env (Some file) s))
       \<and> \<not> decided (run_script env (Some file) s)
       \<and> raised (run_script env (Some file) s) = None
       \<and> stored (session (run_script env (Some file) s)) = stored s"
proof -
  have x: "extract_features env file = ([StError (''Audio Error: '' @ message e)], None)"
    using assms by (rule extract_features_fails)
  have ev: "events (run_script env (Some file) s) = [StAudio file, StError (''Audio Error: '' @ message e)]"
    by (simp add: run_script_def x Let_def)
  have r: "raised (run_script env (Some file) s) = None"
    by (simp add: run_script_def x Let_def)
  have st: "stored (session (run_script env (Some file) s)) = stored s"
    by (simp add: run_script_def x Let_def stored_def)
  show ?thesis by (simp add: ev r st decided_def)
qed

theorem failed_extraction_skips_classifier_witness:
  "events (run_script \<lparr>decode = (\<lambda>_. Inl (Exception ''bad file'')), mfcc = (\<lambda>_ _ _. Inr []),
       predict = (\<lambda>_. [1]), predict_proba = (\<lambda>_. [[1 / 5, 4 / 5]]), now = ''''\<rparr>
     (Some ''junk'') \<lparr>history = None\<rparr>)
     = [StAudio ''junk'', StError ''Audio Error: bad file'']
   \<and> events (run_script \<lparr>decode = (\<lambda>_. Inr ([1, 2], 4)),
       mfcc = (\<lambda>_ _ _. Inl (Exception ''too short'')),
       predict = (\<lambda>_. [1]), predict_proba = (\<lambda>_. [[1 / 5, 4 / 5]]), now = ''''\<rparr>
     (Some ''clip'') \<lparr>history = None\<rparr>)
     = [StAudio ''clip'', StError ''Audio Error: too short'']"
  using failed_extraction_skips_classifier [of
      "\<lparr>decode = (\<lambda>_. Inl (Exception ''bad file'')), mfcc = (\<lambda>_ _ _. Inr []),
        predict = (\<lambda>_. [1]), predict_proba = (\<lambda>_. [[1 / 5, 4 / 5]]), now = ''''\<rparr>"
      "''junk''" "Exception ''bad file''" "\<lparr>history = None\<rparr>"]
    failed_extraction_skips_classifier [of
      "\<lparr>decode = (\<lambda>_. Inr ([1, 2], 4)), mfcc = (\<lambda>_ _ _. Inl (Exception ''too short'')),
        predict = (\<lambda>_. [1]), predict_proba = (\<lambda>_. [[1 / 5, 4 / 5]]), now = ''''\<rparr>"
      "''clip''" "Exception ''too short''" "\<lparr>history = None\<rparr>"]
  by simp

lemma is_panel_history_lines: "list_ex is_panel (history_lines h) = False"
  by (simp add: history_lines_def list_ex_iff split_def image_iff)

lemma run_script_stored:
  "stored (session (run_script env u s)) = stored s @ appended env u"
  by (auto simp: run_script_def appended_def stored_def prediction_block_def crash_def Let_def
      result_display_def append_history_def
      split: option.splits sum.splits prod.splits if_splits)

lemma decided_run_script: "decided (run_script env u s) = decides env u"
  by (auto simp: run_script_def decides_def decided_def prediction_block_def crash_def Let_def
      result_display_def append_history_def extract_features_def is_panel_history_lines
      split: option.splits sum.splits prod.splits if_splits)

lemma decides_appended: "decides env u \<Longrightarrow> length (appended env u) = 1"
  by (auto simp: run_script_def decides_def decided_def appended_def stored_def
      prediction_block_def crash_def Let_def
      result_display_def append_history_def extract_features_def is_panel_history_lines
      split: option.splits sum.splits prod.splits if_splits)

lemma listing_run_script:
  "decides env u \<Longrightarrow>
   listing (events (run_script env u s))
     = map (\<lambda>(i, entry). (i + 1, entry)) (enumerate 0 (rev (stored (session (run_script env u s)))))"
  by (auto simp: run_script_def decides_def decided_def stored_def
      prediction_block_def crash_def Let_def listing_history_lines
      result_display_def append_history_def extract_features_def is_panel_history_lines
      split: option.splits sum.splits prod.splits if_splits)

lemma run_session_stored:
  "stored (run_session env us s) = stored s @ concat (map (appended env) us)"
  by (induction us arbitrary: s) (simp_all add: run_script_stored)

lemma numbered_from_one:
  "map snd (map (\<lambda>(i, entry). (i + 1, entry)) (enumerate 0 xs)) = xs
   \<and> map fst (map (\<lambda>(i, entry). (i + 1, entry)) (enumerate 0 xs)) = [1..<Suc (length xs)]"
proof
  have "map snd (map (\<lambda>(i, entry). (i + 1, entry)) (enumerate 0 xs)) = map snd (enumerate 0 xs)"
    by (simp add: split_def o_def)
  then show "map snd (map (\<lambda>(i, entry). (i + 1, entry)) (enumerate 0 xs)) = xs"
    by (simp only: map_snd_enumerate)
next
  have "map fst (map (\<lambda>(i, entry). (i + 1, entry)) (enumerate 0 xs))
      = map Suc (map fst (enumerate 0 xs))"
    by (simp only: map_map split_def o_def fst_conv Suc_eq_plus1)
  also have "\<dots> = map Suc [0..<length xs]"
    by (simp only: map_fst_enumerate add_0)
  also have "\<dots> = [1..<Suc (length xs)]"
    by (simp only: map_Suc_upt One_nat_def)
  finally show "map fst (map (\<lambda>(i, entry). (i + 1, entry)) (enumerate 0 xs)) = [1..<Suc (length xs)]" .
qed

lemma not_decides_appended: "\<not> decides env u \<Longrightarrow> appended env u = []"
  by (auto simp: run_script_def decides_def decided_def appended_def stored_def
      prediction_block_def crash_def Let_def
      result_display_def append_history_def extract_features_def is_panel_history_lines
      split: option.splits sum.splits prod.splits if_splits)

lemma not_decides_listing: "\<not> decides env u \<Longrightarrow> listing (events (run_script env u s)) = []"
  by (auto simp: run_script_def decides_def decided_def appended_def stored_def
      prediction_block_def crash_def Let_def
      result_display_def append_history_def extract_features_def is_panel_history_lines
      split: option.splits sum.splits prod.splits if_splits)

lemma page_load_does_not_decide: "\<not> decides env None"
  by (simp add: decides_def decided_def run_script_def)

lemma count_appended:
  "length (concat (map (appended env) us)) = length (filter (decides env) us)"
  by (induction us) (auto simp: decides_appended not_decides_appended)

text \<open>
  C8. A fresh session stores exactly as many history lines as there were runs that made
  a decision: such a run adds its one line at the end, any other run (a page load
  without a file, a failed upload, a run that raised) adds none, so the lines are in
  insertion order with the newest last. The listing a deciding run shows is the stored
  list reversed and numbered from 1; the stored list itself keeps the old lines in place.
\<close>

theorem session_history_insertion_order:
  "length (stored (run_session env us \<lparr>history = None\<rparr>)) = length (filter (decides env) us)
   \<and> stored (run_session env us s) = stored s @ concat (map (appended env) us)
   \<and> (\<forall>u. decided (run_script env u s) = decides env u
          \<and> (decides env u \<longrightarrow> length (appended env u) = 1)
          \<and> (\<not> decides env u \<longrightarrow> appended env u = [])
          \<and> stored (session (run_script env u s)) = stored s @ appended env u
          \<and> (decides env u \<longrightarrow>
                 map snd (listing (events (run_script env u s)))
                   = rev (stored (session (run_script env u s)))
               \<and> map fst (listing (events (run_script env u s)))
                   = [1..<Suc (length (stored (session (run_script env u s))))]))"
proof -
  have "stored \<lparr>history = None\<rparr> = []"
    by (simp add: stored_def)
  then have fresh: "length (stored (run_session env us \<lparr>history = None\<rparr>))
      = length (filter (decides env) us)"
    by (simp add: run_session_stored count_appended)
  have whole: "stored (run_session env us s) = stored s @ concat (map (appended env) us)"
    by (rule run_session_stored)
  have shown: "map snd (listing (events (run_script env u s)))
                   = rev (stored (session (run_script env u s)))
               \<and> map fst (listing (events (run_script env u s)))
                   = [1..<Suc (length (stored (session (run_script env u s))))]"
    if "decides env u" for u
  proof -
    from that have l: "listing (events (run_script env u s))
       = map (\<lambda>(i, entry). (i + 1, entry))
           (enumerate 0 (rev (stored (session (run_script env u s)))))"
      by (rule listing_run_script)
    have n: "map snd (map (\<lambda>(i, entry). (i + 1, entry))
                (enumerate 0 (rev (stored (session (run_script env u s))))))
              = rev (stored (session (run_script env u s)))
           \<and> map fst (map (\<lambda>(i, entry). (i + 1, entry))
                (enumerate 0 (rev (stored (session (run_script env u s))))))
              = [1..<Suc (length (rev (stored (session (run_script env u s)))))]"
      by (rule numbered_from_one)
    from n show ?thesis unfolding l length_rev .
  qed
  have each: "decided (run_script env u s) = decides env u
          \<and> (decides env u \<longrightarrow> length (appended env u) = 1)
          \<and> (\<not> decides env u \<longrightarrow> appended env u = [])
          \<and> stored (session (run_script env u s)) = stored s @ appended env u
          \<and> (decides env u \<longrightarrow>
                 map snd (listing (events (run_script env u s)))
                   = rev (stored (session (run_script env u s)))
               \<and> map fst (listing (events (run_script env u s)))
                   = [1..<Suc (length (stored (session (run_script env u s))))])" for u
    using decided_run_script [of env u s] decides_appended [of env u]
      not_decides_appended [of env u] run_script_stored [of env u s] shown [of u]
    by blast
  from fresh whole each show ?thesis by blast
qed

theorem session_history_insertion_order_witness:
  "stored (run_session
      \<lparr>decode = (\<lambda>b. if b = ''junk'' then Inl (Exception ''bad file'')
                       else Inr ([of_nat (length b)], 1)),
        mfcc = (\<lambda>y _ _. Inr [y]),
        predict = (\<lambda>f. if f = [[1]] then [1] else [0]),
        predict_proba = (\<lambda>_. [[1 / 4, 3 / 4]]), now = ''12:00''\<rparr>
      [None, Some ''a'', Some ''junk'', Some ''bb'', None] \<lparr>history = None\<rparr>)
     = [[Lit ''Depressed ('', Num 75, Lit ''%)''], [Lit ''Not Depressed ('', Num 25, Lit ''%)'']]
   \<and> length (filter (decides
      \<lparr>decode = (\<lambda>b. if b = ''junk'' then Inl (Exception ''bad file'')
                       else Inr ([of_nat (length b)], 1)),
        mfcc = (\<lambda>y _ _. Inr [y]),
        predict = (\<lambda>f. if f = [[1]] then [1] else [0]),
        predict_proba = (\<lambda>_. [[1 / 4, 3 / 4]]), now = ''12:00''\<rparr>)
      [None, Some ''a'', Some ''junk'', Some ''bb'', None]) = 2
   \<and> listing (events (run_script
      \<lparr>decode = (\<lambda>b. if b = ''junk'' then Inl (Exception ''bad file'')
                       else Inr ([of_nat (length b)], 1)),
        mfcc = (\<lambda>y _ _. Inr [y]),
        predict = (\<lambda>f. if f = [[1]] then [1] else [0]),
        predict_proba = (\<lambda>_. [[1 / 4, 3 / 4]]), now = ''12:00''\<rparr>
      (Some ''bb'') \<lparr>history = Some [[Lit ''Depressed ('', Num 75, Lit ''%)'']]\<rparr>))
     = [(1, [Lit ''Not Depressed ('', Num 25, Lit ''%)'']), (2, [Lit ''Depressed ('', Num 75, Lit ''%)''])]"
proof -
  let ?env = "\<lparr>decode = (\<lambda>b. if b = ''junk'' then Inl (Exception ''bad file'')
                       else Inr ([of_nat (length b)], 1)),
        mfcc = (\<lambda>y _ _. Inr [y]),
        predict = (\<lambda>f. if f = [[1]] then [1] else [0]),
        predict_proba = (\<lambda>_. [[1 / 4, 3 / 4]]), now = ''12:00''\<rparr>"
  let ?us = "[None, Some ''a'', Some ''junk'', Some ''bb'', None]"
  note defs = run_script_def extract_features_def librosa_load_def
        prediction_block_def confidence_score_def index0_def py_round_def round_half_even_def
        result_display_def append_history_def generate_pdf_report_def result_label_def
        history_lines_def stored_def mean_axis1_def Let_def
  have a: "appended ?env (Some ''a'') = [[Lit ''Depressed ('', Num 75, Lit ''%)'']]"
    by (simp add: appended_def defs)
  have b: "appended ?env (Some ''bb'') = [[Lit ''Not Depressed ('', Num 25, Lit ''%)'']]"
    by (simp add: appended_def defs)
  have j: "appended ?env (Some ''junk'') = []"
    by (simp add: appended_def defs)
  have n: "appended ?env None = []"
    by (simp add: appended_def defs)
  have da: "decides ?env (Some ''a'')"
    by (simp add: decides_def decided_def defs)
  have db: "decides ?env (Some ''bb'')"
    by (simp add: decides_def decided_def defs)
  have dj: "\<not> decides ?env (Some ''junk'')"
    by (simp add: decides_def decided_def defs)
  have dn: "\<not> decides ?env None"
    by (simp add: decides_def decided_def defs)
  have l: "listing (events (run_script ?env (Some ''bb'')
        \<lparr>history = Some [[Lit ''Depressed ('', Num 75, Lit ''%)'']]\<rparr>))
     = [(1, [Lit ''Not Depressed ('', Num 25, Lit ''%)'']), (2, [Lit ''Depressed ('', Num 75, Lit ''%)''])]"
    by (simp add: defs)
  have e: "stored \<lparr>history = None\<rparr> = []"
    by (simp add: stored_def)
  from session_history_insertion_order [of ?env ?us "\<lparr>history = None\<rparr>"]
  have "stored (run_session ?env ?us \<lparr>history = None\<rparr>)
        = stored \<lparr>history = None\<rparr> @ concat (map (appended ?env) ?us)"
    by blast
  then have "stored (run_session ?env ?us \<lparr>history = None\<rparr>)
     = [[Lit ''Depressed ('', Num 75, Lit ''%)''], [Lit ''Not Depressed ('', Num 25, Lit ''%)'']]"
    unfolding e by (simp add: a b j n)
  moreover have "length (filter (decides ?env) ?us) = 2"
    using da db dj dn by simp
  ultimately show ?thesis using l by blast
qed

end
